theory Spec2Isabelle
  imports Complex_Main "HOL-Library.Option_ord"
begin

section \<open>Data model\<close>

text \<open>
  The production order analytics of \<^verbatim>\<open>app/core/data_analyzer.py\<close> (class
  \<^verbatim>\<open>ExcaliburDataAnalyzer\<close>) and the status aggregation of
  \<^verbatim>\<open>app/controllers/dashboard_analytics_controller.py\<close>.

  A date is a day number: the queries only compare dates, and the
  \<^verbatim>\<open>'%Y-%m-%d'\<close> strings of the sample data compare as their dates do. A numeric
  cell is a rational or nothing: \<open>None\<close> is SQL's NULL in the database, and the NaN by
  which pandas holds a NULL of a numeric column once the rows are in a DataFrame (a
  column that holds at least one number is read as \<^verbatim>\<open>float64\<close>). Floating point rounding
  is not modelled.
\<close>

type_synonym date = int
type_synonym num = "rat option"

text \<open>
  A row of \<^verbatim>\<open>gpao.OF_DA\<close> or of \<^verbatim>\<open>gpao.HISTO_OF_DA\<close>, with the columns the
  queries compute from. \<open>t_DATE_CLOTURE\<close> is a column of the historical table only (no
  query reads it from the active table). \<^verbatim>\<open>CATEGORIE\<close> and \<^verbatim>\<open>CLIENT\<close> are the
  text columns the queries pass through \<^verbatim>\<open>COALESCE\<close>, so they may be NULL.
  \<^verbatim>\<open>STATUT\<close> may be NULL as well: the retrievals put no condition on it, where the
  status query of the controller writes \<^verbatim>\<open>STATUT IS NOT NULL\<close>. A NULL of a text column
  is \<^verbatim>\<open>None\<close> in the DataFrame.
\<close>

record tbl_row =
  t_NUMERO_OFDA :: string
  t_PRODUIT :: string
  t_STATUT :: "string option"
  t_LANCEMENT_AU_PLUS_TARD :: "date option"
  t_QUANTITE_DEMANDEE :: num
  t_CUMUL_ENTREES :: num
  t_DUREE_PREVUE :: num
  t_CUMUL_TEMPS_PASSES :: num
  t_LANCE_LE :: "date option"
  t_DATE_CLOTURE :: "date option"
  t_CATEGORIE :: "string option"
  t_CLIENT :: "string option"

record database =
  OF_DA :: "tbl_row list"
  HISTO_OF_DA :: "tbl_row list"

text \<open>
  A row of a result DataFrame. The columns that every query copies or sets to a constant
  and that nothing computes from (\<^verbatim>\<open>AFFAIRE\<close>, \<^verbatim>\<open>DESIGNATION\<close>, \<^verbatim>\<open>DISPO_DEMANDE\<close>,
  \<^verbatim>\<open>SECTEUR\<close>, \<^verbatim>\<open>PRIORITE\<close>, \<^verbatim>\<open>RESPONSABLE\<close>, \<^verbatim>\<open>DUREE_ESTIMEE_HISTORIQUE\<close>,
  \<^verbatim>\<open>Avancement_temps_historique\<close>) and the week number \<^verbatim>\<open>SEMAINE\<close> are named in
  the column lists but carry no cell here. \<^verbatim>\<open>Alerte_temps\<close> is 1/0 from SQL and
  True/False from pandas; the comparisons \<^verbatim>\<open>== 1\<close>, \<^verbatim>\<open>== 0\<close> and \<^verbatim>\<open>== True\<close> of the
  source do not tell them apart, so the cell is a \<open>bool\<close>. The cell of a column that a
  frame does not have is a placeholder.
\<close>

record of_row =
  NUMERO_OFDA :: string
  PRODUIT :: string
  STATUT :: "string option"
  LANCEMENT_AU_PLUS_TARD :: "date option"
  QUANTITE_DEMANDEE :: num
  CUMUL_ENTREES :: num
  DUREE_PREVUE :: num
  CUMUL_TEMPS_PASSES :: num
  LANCE_LE :: "date option"
  DATA_CLOTURE :: "date option"
  FAMILLE_TECHNIQUE :: string
  CLIENT :: string
  TEMPS_UNITAIRE_HISTORIQUE :: num
  DATA_SOURCE :: string
  COMPLETION_STATUS :: string
  Avancement_PROD :: num
  Avancement_temps :: num
  Alerte_temps :: bool
  EFFICACITE :: num

record dataframe =
  columns :: "string list"
  rows :: "of_row list"

definition df_empty :: "dataframe \<Rightarrow> bool" where
  "df_empty df = (rows df = [] \<or> columns df = [])"

definition empty_DataFrame :: dataframe where
  "empty_DataFrame = \<lparr>columns = [], rows = []\<rparr>"

definition base_columns :: "string list" where
  "base_columns =
     [''NUMERO_OFDA'', ''PRODUIT'', ''STATUT'', ''LANCEMENT_AU_PLUS_TARD'',
      ''QUANTITE_DEMANDEE'', ''CUMUL_ENTREES'', ''DUREE_PREVUE'', ''CUMUL_TEMPS_PASSES'',
      ''AFFAIRE'', ''DESIGNATION'', ''LANCE_LE'', ''DISPO_DEMANDE'', ''DATA_CLOTURE'',
      ''FAMILLE_TECHNIQUE'', ''CLIENT'', ''SECTEUR'', ''PRIORITE'', ''RESPONSABLE'']"

definition sql_columns :: "string list" where
  "sql_columns = base_columns @
     [''TEMPS_UNITAIRE_HISTORIQUE'', ''DATA_SOURCE'', ''COMPLETION_STATUS'',
      ''Avancement_PROD'', ''Avancement_temps'', ''Alerte_temps'',
      ''DUREE_ESTIMEE_HISTORIQUE'', ''Avancement_temps_historique'']"

definition Non_definie :: string where
  "Non_definie = ''Non d'' @ [CHR 0xC3, CHR 0xA9] @ ''finie''"

definition Non_defini :: string where
  "Non_defini = ''Non d'' @ [CHR 0xC3, CHR 0xA9] @ ''fini''"

section \<open>SQL expressions\<close>

text \<open>
  A comparison with NULL is UNKNOWN (\<open>None\<close>); a \<^verbatim>\<open>WHERE\<close>, an \<^verbatim>\<open>ON\<close> and a
  \<^verbatim>\<open>CASE WHEN\<close> take a row or a branch only when the condition is TRUE.
\<close>

definition sql_gt :: "'a::linorder option \<Rightarrow> 'a option \<Rightarrow> bool option" where
  "sql_gt a b = (case (a, b) of (Some x, Some y) \<Rightarrow> Some (x > y) | _ \<Rightarrow> None)"

definition sql_ge :: "'a::linorder option \<Rightarrow> 'a option \<Rightarrow> bool option" where
  "sql_ge a b = (case (a, b) of (Some x, Some y) \<Rightarrow> Some (x \<ge> y) | _ \<Rightarrow> None)"

definition sql_le :: "'a::linorder option \<Rightarrow> 'a option \<Rightarrow> bool option" where
  "sql_le a b = (case (a, b) of (Some x, Some y) \<Rightarrow> Some (x \<le> y) | _ \<Rightarrow> None)"

definition sql_eq :: "'a option \<Rightarrow> 'a option \<Rightarrow> bool option" where
  "sql_eq a b = (case (a, b) of (Some x, Some y) \<Rightarrow> Some (x = y) | _ \<Rightarrow> None)"

definition sql_in :: "'a option \<Rightarrow> 'a list \<Rightarrow> bool option" where
  "sql_in a vs = (case a of Some x \<Rightarrow> Some (x \<in> set vs) | None \<Rightarrow> None)"

definition sql_and :: "bool option \<Rightarrow> bool option \<Rightarrow> bool option" where
  "sql_and p q =
     (if p = Some False \<or> q = Some False then Some False
      else if p = Some True \<and> q = Some True then Some True
      else None)"

definition sql_true :: "bool option \<Rightarrow> bool" where
  "sql_true p = (p = Some True)"

definition sql_div :: "num \<Rightarrow> num \<Rightarrow> num" where
  "sql_div a b = (case (a, b) of (Some x, Some y) \<Rightarrow> Some (x / y) | _ \<Rightarrow> None)"

definition coalesce :: "'a option \<Rightarrow> 'a \<Rightarrow> 'a" where
  "coalesce a d = (case a of Some x \<Rightarrow> x | None \<Rightarrow> d)"

text \<open>\<^verbatim>\<open>AVG\<close> skips NULLs, and is NULL when nothing is left.\<close>

definition sql_avg :: "num list \<Rightarrow> num" where
  "sql_avg vs =
     (let xs = concat (map (\<lambda>v. case v of Some x \<Rightarrow> [x] | None \<Rightarrow> []) vs)
      in if xs = [] then None else Some (sum_list xs / of_nat (length xs)))"

text \<open>\<^verbatim>\<open>LIKE 'F%'\<close>.\<close>

definition like_F :: "string \<Rightarrow> bool" where
  "like_F s = (take 1 s = ''F'')"

text \<open>
  \<^verbatim>\<open>ORDER BY k DESC\<close>. NULL is the least value of the order on \<open>option\<close>, so NULLs
  come last. The order among rows of equal key is the engine's choice; here it is the
  reverse of the order in the table.
\<close>

definition order_by_desc :: "('a \<Rightarrow> 'k::linorder) \<Rightarrow> 'a list \<Rightarrow> 'a list" where
  "order_by_desc k xs = rev (sort_key k xs)"

text \<open>
  \<^verbatim>\<open>CASE WHEN den > 0 THEN CAST(num AS FLOAT) / CAST(den AS FLOAT) ELSE 0 END\<close>.
\<close>

definition sql_ratio :: "num \<Rightarrow> num \<Rightarrow> num" where
  "sql_ratio n d = (if sql_true (sql_gt d (Some 0)) then sql_div n d else Some 0)"

section \<open>The queries\<close>

text \<open>
  The subquery \<^verbatim>\<open>hist_avg\<close>: per \<^verbatim>\<open>(PRODUIT, CATEGORIE)\<close> of the historical rows
  with \<^verbatim>\<open>CUMUL_ENTREES > 0 AND CUMUL_TEMPS_PASSES > 0\<close>, the average unit time.
  \<^verbatim>\<open>GROUP BY\<close> puts the rows of NULL category of one product in one group.
\<close>

definition hist_where :: "tbl_row \<Rightarrow> bool" where
  "hist_where h =
     sql_true (sql_and (sql_gt (t_CUMUL_ENTREES h) (Some 0))
                       (sql_gt (t_CUMUL_TEMPS_PASSES h) (Some 0)))"

definition hist_key :: "tbl_row \<Rightarrow> string \<times> string option" where
  "hist_key h = (t_PRODUIT h, t_CATEGORIE h)"

definition hist_avg :: "tbl_row list \<Rightarrow> ((string \<times> string option) \<times> num) list" where
  "hist_avg histo =
     (let q = filter hist_where histo
      in map (\<lambda>k. (k, sql_avg (map (\<lambda>h. sql_ratio (t_CUMUL_TEMPS_PASSES h) (t_CUMUL_ENTREES h))
                                     (filter (\<lambda>h. hist_key h = k) q))))
             (remdups (map hist_key q)))"

text \<open>
  \<^verbatim>\<open>ON ofda.PRODUIT = hist_avg.PRODUIT AND ofda.CATEGORIE = hist_avg.CATEGORIE\<close>, and
  the \<^verbatim>\<open>LEFT JOIN\<close>: an active row with no matching group is kept once, with NULL for
  the columns of \<^verbatim>\<open>hist_avg\<close>.
\<close>

definition join_on :: "tbl_row \<Rightarrow> (string \<times> string option) \<times> num \<Rightarrow> bool" where
  "join_on a g =
     sql_true (sql_and (sql_eq (Some (t_PRODUIT a)) (Some (fst (fst g))))
                       (sql_eq (t_CATEGORIE a) (snd (fst g))))"

definition left_join :: "tbl_row list \<Rightarrow> tbl_row list \<Rightarrow> (tbl_row \<times> num) list" where
  "left_join ofda histo =
     concat (map (\<lambda>a. case filter (join_on a) (hist_avg histo) of
                          [] \<Rightarrow> [(a, None)]
                        | gs \<Rightarrow> map (\<lambda>g. (a, snd g)) gs) ofda)"

text \<open>The select list of the two queries on the active table.\<close>

definition of_da_select :: "tbl_row \<times> num \<Rightarrow> of_row" where
  "of_da_select j =
     (let a = fst j in
      \<lparr>NUMERO_OFDA = t_NUMERO_OFDA a,
       PRODUIT = t_PRODUIT a,
       STATUT = t_STATUT a,
       LANCEMENT_AU_PLUS_TARD = t_LANCEMENT_AU_PLUS_TARD a,
       QUANTITE_DEMANDEE = t_QUANTITE_DEMANDEE a,
       CUMUL_ENTREES = t_CUMUL_ENTREES a,
       DUREE_PREVUE = t_DUREE_PREVUE a,
       CUMUL_TEMPS_PASSES = t_CUMUL_TEMPS_PASSES a,
       LANCE_LE = t_LANCE_LE a,
       DATA_CLOTURE = None,
       FAMILLE_TECHNIQUE = coalesce (t_CATEGORIE a) Non_definie,
       CLIENT = coalesce (t_CLIENT a) Non_defini,
       TEMPS_UNITAIRE_HISTORIQUE = Some (coalesce (snd j) 0),
       DATA_SOURCE = ''ACTIVE'',
       COMPLETION_STATUS =
         (if sql_true (sql_in (t_STATUT a) [''T'', ''A'']) then ''COMPLETED''
          else ''IN_PROGRESS''),
       Avancement_PROD = sql_ratio (t_CUMUL_ENTREES a) (t_QUANTITE_DEMANDEE a),
       Avancement_temps = sql_ratio (t_CUMUL_TEMPS_PASSES a) (t_DUREE_PREVUE a),
       Alerte_temps =
         sql_true (sql_and (sql_gt (t_DUREE_PREVUE a) (Some 0))
                           (sql_gt (t_CUMUL_TEMPS_PASSES a) (t_DUREE_PREVUE a))),
       EFFICACITE = None\<rparr>)"

text \<open>The select list of the two queries on the historical table.\<close>

definition histo_select :: "tbl_row \<Rightarrow> of_row" where
  "histo_select h =
     \<lparr>NUMERO_OFDA = t_NUMERO_OFDA h,
      PRODUIT = t_PRODUIT h,
      STATUT = t_STATUT h,
      LANCEMENT_AU_PLUS_TARD = t_LANCEMENT_AU_PLUS_TARD h,
      QUANTITE_DEMANDEE = t_QUANTITE_DEMANDEE h,
      CUMUL_ENTREES = t_CUMUL_ENTREES h,
      DUREE_PREVUE = t_DUREE_PREVUE h,
      CUMUL_TEMPS_PASSES = t_CUMUL_TEMPS_PASSES h,
      LANCE_LE = t_LANCE_LE h,
      DATA_CLOTURE = t_DATE_CLOTURE h,
      FAMILLE_TECHNIQUE = coalesce (t_CATEGORIE h) Non_definie,
      CLIENT = coalesce (t_CLIENT h) Non_defini,
      TEMPS_UNITAIRE_HISTORIQUE = sql_ratio (t_CUMUL_TEMPS_PASSES h) (t_CUMUL_ENTREES h),
      DATA_SOURCE = ''HISTORICAL'',
      COMPLETION_STATUS = ''COMPLETED'',
      Avancement_PROD = sql_ratio (t_CUMUL_ENTREES h) (t_QUANTITE_DEMANDEE h),
      Avancement_temps = sql_ratio (t_CUMUL_TEMPS_PASSES h) (t_DUREE_PREVUE h),
      Alerte_temps = False,
      EFFICACITE = None\<rparr>"

text \<open>
  The optional conditions that the Python appends to the query text. An argument takes
  part when it is truthy: a filter that is \<^verbatim>\<open>None\<close> or the empty string adds nothing.
  A date argument is \<open>None\<close> when it is \<^verbatim>\<open>None\<close> or empty.
\<close>

definition truthy_str :: "string option \<Rightarrow> bool" where
  "truthy_str a = (case a of Some s \<Rightarrow> s \<noteq> [] | None \<Rightarrow> False)"

definition cond_ge :: "date option \<Rightarrow> date option \<Rightarrow> bool" where
  "cond_ge arg col = (case arg of None \<Rightarrow> True | Some d \<Rightarrow> sql_true (sql_ge col (Some d)))"

definition cond_le :: "date option \<Rightarrow> date option \<Rightarrow> bool" where
  "cond_le arg col = (case arg of None \<Rightarrow> True | Some d \<Rightarrow> sql_true (sql_le col (Some d)))"

definition cond_eq :: "string option \<Rightarrow> string \<Rightarrow> bool" where
  "cond_eq arg v = (if truthy_str arg then arg = Some v else True)"

text \<open>The same for a column that may be NULL: \<^verbatim>\<open>AND ofda.STATUT = ?\<close>.\<close>

definition cond_eq_col :: "string option \<Rightarrow> string option \<Rightarrow> bool" where
  "cond_eq_col arg col = (if truthy_str arg then sql_true (sql_eq col arg) else True)"

text \<open>The query of \<^verbatim>\<open>get_of_data\<close>: the dates restrict \<^verbatim>\<open>LANCEMENT_AU_PLUS_TARD\<close>.\<close>

definition of_data_query ::
  "date option \<Rightarrow> date option \<Rightarrow> string option \<Rightarrow> string option \<Rightarrow> string option \<Rightarrow>
   database \<Rightarrow> of_row list" where
  "of_data_query date_debut date_fin statut_filter famille_filter client_filter db =
     order_by_desc LANCEMENT_AU_PLUS_TARD
       (map of_da_select
         (filter (\<lambda>j. let a = fst j in
                    like_F (t_NUMERO_OFDA a)
                    \<and> cond_eq_col statut_filter (t_STATUT a)
                    \<and> cond_ge date_debut (t_LANCEMENT_AU_PLUS_TARD a)
                    \<and> cond_le date_fin (t_LANCEMENT_AU_PLUS_TARD a)
                    \<and> cond_eq famille_filter (coalesce (t_CATEGORIE a) Non_definie)
                    \<and> cond_eq client_filter (coalesce (t_CLIENT a) Non_defini))
            (left_join (OF_DA db) (HISTO_OF_DA db))))"

text \<open>The query of \<^verbatim>\<open>get_of_data_with_lance_le_filter\<close>: the dates restrict \<^verbatim>\<open>LANCE_LE\<close>.\<close>

definition of_data_lance_le_query ::
  "date option \<Rightarrow> date option \<Rightarrow> string option \<Rightarrow> string option \<Rightarrow> string option \<Rightarrow>
   database \<Rightarrow> of_row list" where
  "of_data_lance_le_query date_debut date_fin statut_filter famille_filter client_filter db =
     order_by_desc LANCEMENT_AU_PLUS_TARD
       (map of_da_select
         (filter (\<lambda>j. let a = fst j in
                    like_F (t_NUMERO_OFDA a)
                    \<and> cond_ge date_debut (t_LANCE_LE a)
                    \<and> cond_le date_fin (t_LANCE_LE a)
                    \<and> cond_eq_col statut_filter (t_STATUT a)
                    \<and> cond_eq famille_filter (coalesce (t_CATEGORIE a) Non_definie)
                    \<and> cond_eq client_filter (coalesce (t_CLIENT a) Non_defini))
            (left_join (OF_DA db) (HISTO_OF_DA db))))"

text \<open>The query of \<^verbatim>\<open>get_histo_of_data\<close>: the dates restrict \<^verbatim>\<open>DATE_CLOTURE\<close>.\<close>

definition histo_query ::
  "date option \<Rightarrow> date option \<Rightarrow> string option \<Rightarrow> string option \<Rightarrow>
   database \<Rightarrow> of_row list" where
  "histo_query date_debut date_fin famille_filter client_filter db =
     order_by_desc LANCEMENT_AU_PLUS_TARD
       (map histo_select
         (filter (\<lambda>h. like_F (t_NUMERO_OFDA h)
                    \<and> cond_ge date_debut (t_DATE_CLOTURE h)
                    \<and> cond_le date_fin (t_DATE_CLOTURE h)
                    \<and> cond_eq famille_filter (coalesce (t_CATEGORIE h) Non_definie)
                    \<and> cond_eq client_filter (coalesce (t_CLIENT h) Non_defini))
            (HISTO_OF_DA db)))"

text \<open>
  The query of \<^verbatim>\<open>get_histo_of_data_with_lance_le_filter\<close>: the dates restrict
  \<^verbatim>\<open>LANCE_LE\<close>.
\<close>

definition histo_lance_le_query ::
  "date option \<Rightarrow> date option \<Rightarrow> string option \<Rightarrow> string option \<Rightarrow>
   database \<Rightarrow> of_row list" where
  "histo_lance_le_query date_debut date_fin famille_filter client_filter db =
     order_by_desc LANCEMENT_AU_PLUS_TARD
       (map histo_select
         (filter (\<lambda>h. like_F (t_NUMERO_OFDA h)
                    \<and> cond_ge date_debut (t_LANCE_LE h)
                    \<and> cond_le date_fin (t_LANCE_LE h)
                    \<and> cond_eq famille_filter (coalesce (t_CATEGORIE h) Non_definie)
                    \<and> cond_eq client_filter (coalesce (t_CLIENT h) Non_defini))
            (HISTO_OF_DA db)))"

section \<open>The analyzer and the query layer\<close>

text \<open>
  Of the analyzer object: whether \<^verbatim>\<open>self.engine\<close> and \<^verbatim>\<open>self.connection\<close> are set, and
  whether the attribute \<^verbatim>\<open>_sample_data_created\<close> exists.
\<close>

record analyzer =
  engine :: bool
  connection :: bool
  sample_data_created :: bool

text \<open>
  What the database does during one call: the outcome of \<^verbatim>\<open>_connect\<close>, and whether each
  \<^verbatim>\<open>pd.read_sql\<close> returns (\<open>True\<close>) or raises: the one through the SQLAlchemy engine, the
  one through the pyodbc connection, and the one retried after a reconnect. A read that
  returns gives the rows of the query on \<open>tables\<close>.
\<close>

datatype connect_outcome = Connect_fails | Pyodbc_only | Pyodbc_and_engine

record query_layer =
  tables :: database
  on_connect :: connect_outcome
  engine_read :: bool
  connection_read :: bool
  retry_read :: bool

definition connect :: "query_layer \<Rightarrow> analyzer \<Rightarrow> analyzer" where
  "connect env st =
     (case on_connect env of
        Connect_fails \<Rightarrow> st\<lparr>engine := False, connection := False\<rparr>
      | Pyodbc_only \<Rightarrow> st\<lparr>engine := False, connection := True\<rparr>
      | Pyodbc_and_engine \<Rightarrow> st\<lparr>engine := True, connection := True\<rparr>)"

definition read_sql :: "query_layer \<Rightarrow> (database \<Rightarrow> of_row list) \<Rightarrow> dataframe" where
  "read_sql env q = \<lparr>columns = sql_columns, rows = q (tables env)\<rparr>"

text \<open>
  \<^verbatim>\<open>execute_query\<close> catches every exception of a read: it falls back from the engine to
  the connection, reconnects once, and returns \<^verbatim>\<open>pd.DataFrame()\<close> when nothing worked.
\<close>

definition execute_query ::
  "query_layer \<Rightarrow> analyzer \<Rightarrow> (database \<Rightarrow> of_row list) \<Rightarrow> analyzer \<times> dataframe" where
  "execute_query env st q =
     (if engine st \<and> engine_read env then (st, read_sql env q)
      else
        let st1 = (if \<not> connection st then connect env st else st) in
        if \<not> connection st1 then (st1, empty_DataFrame)
        else if connection_read env then (st1, read_sql env q)
        else
          let st2 = connect env st1 in
          if connection st2 \<and> retry_read env then (st2, read_sql env q)
          else (st2, empty_DataFrame))"

section \<open>Sample data\<close>

text \<open>
  \<^verbatim>\<open>_create_sample_data\<close> draws from \<^verbatim>\<open>random\<close> and reads the clock. The draws of round
  \<open>i\<close> and the date of \<^verbatim>\<open>datetime.now()\<close> are given; \<open>valid_draw\<close> states the ranges
  of \<^verbatim>\<open>random.randint\<close>. A pick is an index, taken modulo the length of the list that
  \<^verbatim>\<open>random.choice\<close> picks from.
\<close>

record draw =
  days_offset :: int
  quantite_demandee :: int
  cumul_entrees :: int
  duree_prevue :: int
  cumul_temps_passes :: int
  statut_pick :: nat
  famille_pick :: nat
  client_pick :: nat
  cloture_offset :: "int option"

record sample_source =
  base_date :: date
  draws :: "nat \<Rightarrow> draw"


definition choice :: "'a list \<Rightarrow> nat \<Rightarrow> 'a" where
  "choice xs k = xs ! (k mod length xs)"

definition familles :: "string list" where
  "familles =
     [''M'' @ [CHR 0xC3, CHR 0xA9] @ ''canique'', [CHR 0xC3, CHR 0x89] @ ''lectronique'',
      ''Assemblage'', ''Usinage'', ''Soudure'']"

definition clients :: "string list" where
  "clients = [''Client A'', ''Client B'', ''Client C'', ''Client D'', ''Client E'']"

definition statuts :: "string list" where
  "statuts = [''C'', ''T'', ''A'']"

text \<open>The formats \<^verbatim>\<open>:04d\<close> and \<^verbatim>\<open>:03d\<close>: decimal digits, padded with zeros on the left.\<close>

fun dec :: "nat \<Rightarrow> string" where
  "dec n = (if n < 10 then [''0123456789'' ! n]
            else dec (n div 10) @ [''0123456789'' ! (n mod 10)])"

definition zero_pad :: "nat \<Rightarrow> string \<Rightarrow> string" where
  "zero_pad w s = replicate (w - length s) (CHR ''0'') @ s"

definition sample_row :: "sample_source \<Rightarrow> nat \<Rightarrow> of_row" where
  "sample_row src i =
     (let d = draws src i; launch_date = base_date src + days_offset d in
      \<lparr>NUMERO_OFDA = ''F'' @ zero_pad 4 (dec (1000 + i)),
       PRODUIT = ''PROD_'' @ zero_pad 3 (dec i),
       STATUT = Some (choice statuts (statut_pick d)),
       LANCEMENT_AU_PLUS_TARD = Some launch_date,
       QUANTITE_DEMANDEE = Some (of_int (quantite_demandee d)),
       CUMUL_ENTREES = Some (of_int (cumul_entrees d)),
       DUREE_PREVUE = Some (of_int (duree_prevue d)),
       CUMUL_TEMPS_PASSES = Some (of_int (cumul_temps_passes d)),
       LANCE_LE = Some launch_date,
       DATA_CLOTURE = map_option (\<lambda>k. base_date src + days_offset d + k) (cloture_offset d),
       FAMILLE_TECHNIQUE = choice familles (famille_pick d),
       CLIENT = choice clients (client_pick d),
       TEMPS_UNITAIRE_HISTORIQUE = None,
       DATA_SOURCE = [],
       COMPLETION_STATUS = [],
       Avancement_PROD = None,
       Avancement_temps = None,
       Alerte_temps = False,
       EFFICACITE = None\<rparr>)"

definition create_sample_data :: "sample_source \<Rightarrow> dataframe" where
  "create_sample_data src = \<lparr>columns = base_columns, rows = map (sample_row src) [0..<50]\<rparr>"

section \<open>Retrieval of the active orders\<close>

text \<open>
  Python on a numeric cell. NaN is truthy and differs from 0; a quotient with NaN is NaN;
  a comparison with NaN is false. The source divides only behind its guard, so the
  divisor is never 0 where \<open>py_div\<close> is used. A cell that is \<open>None\<close> here is NaN: every
  numeric column of a frame is taken to hold at least one number. A column that is NULL in
  every row would hold Python's \<^verbatim>\<open>None\<close> instead, which is falsy and cannot be divided;
  such frames are outside these definitions.
\<close>

definition py_truthy :: "num \<Rightarrow> bool" where
  "py_truthy v = (case v of None \<Rightarrow> True | Some x \<Rightarrow> x \<noteq> 0)"

definition py_ne0 :: "num \<Rightarrow> bool" where
  "py_ne0 v = (case v of None \<Rightarrow> True | Some x \<Rightarrow> x \<noteq> 0)"

definition py_div :: "num \<Rightarrow> num \<Rightarrow> num" where
  "py_div a b = (case (a, b) of (Some x, Some y) \<Rightarrow> Some (x / y) | _ \<Rightarrow> None)"

definition py_gt :: "num \<Rightarrow> num \<Rightarrow> bool" where
  "py_gt a b = (case (a, b) of (Some x, Some y) \<Rightarrow> x > y | _ \<Rightarrow> False)"

text \<open>\<^verbatim>\<open>num / den if den and den != 0 else 0\<close>.\<close>

definition py_ratio :: "num \<Rightarrow> num \<Rightarrow> num" where
  "py_ratio n d = (if py_truthy d \<and> py_ne0 d then py_div n d else Some 0)"

definition add_column :: "string \<Rightarrow> string list \<Rightarrow> string list" where
  "add_column c cs = (if c \<in> set cs then cs else cs @ [c])"

text \<open>The filters that \<^verbatim>\<open>get_of_data\<close> applies to the sample rows, in the source's order.\<close>

definition sample_filters ::
  "date option \<Rightarrow> date option \<Rightarrow> string option \<Rightarrow> string option \<Rightarrow> string option \<Rightarrow>
   of_row list \<Rightarrow> of_row list" where
  "sample_filters date_debut date_fin statut_filter famille_filter client_filter rs =
     (let r1 = (if truthy_str statut_filter
                then filter (\<lambda>r. STATUT r = statut_filter) rs else rs);
          r2 = (if truthy_str famille_filter
                then filter (\<lambda>r. Some (FAMILLE_TECHNIQUE r) = famille_filter) r1 else r1);
          r3 = (if truthy_str client_filter
                then filter (\<lambda>r. Some (CLIENT r) = client_filter) r2 else r2);
          r4 = (case date_debut of None \<Rightarrow> r3
                | Some d \<Rightarrow> filter (\<lambda>r. case LANCEMENT_AU_PLUS_TARD r of
                                          Some x \<Rightarrow> d \<le> x | None \<Rightarrow> False) r3)
      in (case date_fin of None \<Rightarrow> r4
          | Some d \<Rightarrow> filter (\<lambda>r. case LANCEMENT_AU_PLUS_TARD r of
                                    Some x \<Rightarrow> x \<le> d | None \<Rightarrow> False) r4))"

text \<open>
  The calculated columns. \<^verbatim>\<open>Avancement_PROD\<close>, \<^verbatim>\<open>Avancement_temps\<close> and
  \<^verbatim>\<open>Alerte_temps\<close> are assigned whether or not the query computed them;
  \<^verbatim>\<open>DATA_SOURCE\<close> and \<^verbatim>\<open>COMPLETION_STATUS\<close> only when the frame has no such column.
  When the alert filter leaves no row, what the assignment of \<^verbatim>\<open>df.apply\<close> on the empty
  frame does depends on the version of pandas; here the result is the frame without rows.
\<close>

definition add_progress :: "of_row \<Rightarrow> of_row" where
  "add_progress r =
     (let r1 = r\<lparr>Avancement_PROD := py_ratio (CUMUL_ENTREES r) (QUANTITE_DEMANDEE r)\<rparr>;
          r2 = r1\<lparr>Avancement_temps := py_ratio (CUMUL_TEMPS_PASSES r1) (DUREE_PREVUE r1)\<rparr>
      in r2\<lparr>Alerte_temps := py_gt (Avancement_temps r2) (Avancement_PROD r2)\<rparr>)"

definition add_source :: "string list \<Rightarrow> of_row \<Rightarrow> of_row" where
  "add_source cols r =
     (let r1 = (if ''DATA_SOURCE'' \<notin> set cols then r\<lparr>DATA_SOURCE := ''ACTIVE''\<rparr> else r)
      in if ''COMPLETION_STATUS'' \<notin> set cols
         then r1\<lparr>COMPLETION_STATUS :=
                   (if (case STATUT r1 of Some x \<Rightarrow> x \<in> set [''T'', ''A''] | None \<Rightarrow> False)
                    then ''COMPLETED'' else ''IN_PROGRESS'')\<rparr>
         else r1)"

definition add_efficiency :: "of_row \<Rightarrow> of_row" where
  "add_efficiency r =
     r\<lparr>EFFICACITE :=
         (if py_truthy (Avancement_temps r) \<and> py_ne0 (Avancement_temps r)
          then py_div (Avancement_PROD r) (Avancement_temps r) else Some 1)\<rparr>"

definition add_calculated :: "bool option \<Rightarrow> dataframe \<Rightarrow> dataframe" where
  "add_calculated alerte_filter df =
     (let c1 = add_column ''Alerte_temps''
                 (add_column ''Avancement_temps'' (add_column ''Avancement_PROD'' (columns df)));
          r1 = map add_progress (rows df);
          r2 = map (add_source c1) r1;
          c2 = add_column ''COMPLETION_STATUS'' (add_column ''DATA_SOURCE'' c1);
          r3 = (if alerte_filter = Some True then filter Alerte_temps r2 else r2)
      in \<lparr>columns = add_column ''EFFICACITE'' (add_column ''SEMAINE'' c2),
          rows = map add_efficiency r3\<rparr>)"

definition get_of_data ::
  "query_layer \<Rightarrow> sample_source \<Rightarrow> analyzer \<Rightarrow>
   date option \<Rightarrow> date option \<Rightarrow> string option \<Rightarrow> string option \<Rightarrow> string option \<Rightarrow>
   bool option \<Rightarrow> analyzer \<times> dataframe" where
  "get_of_data env src st date_debut date_fin statut_filter famille_filter client_filter
     alerte_filter =
     (let (st1, df) = execute_query env st
            (of_data_query date_debut date_fin statut_filter famille_filter client_filter);
          (st2, df1) =
            (if df_empty df \<and> \<not> sample_data_created st1
             then (st1\<lparr>sample_data_created := True\<rparr>,
                   let s = create_sample_data src in
                   s\<lparr>rows := sample_filters date_debut date_fin statut_filter famille_filter
                               client_filter (rows s)\<rparr>)
             else (st1, df))
      in (st2, if \<not> df_empty df1 then add_calculated alerte_filter df1 else df1))"

definition get_of_data_with_lance_le_filter ::
  "query_layer \<Rightarrow> analyzer \<Rightarrow>
   date option \<Rightarrow> date option \<Rightarrow> string option \<Rightarrow> string option \<Rightarrow> string option \<Rightarrow>
   bool option \<Rightarrow> analyzer \<times> dataframe" where
  "get_of_data_with_lance_le_filter env st date_debut date_fin statut_filter famille_filter
     client_filter alerte_filter =
     (let (st1, df) = execute_query env st
            (of_data_lance_le_query date_debut date_fin statut_filter famille_filter
               client_filter)
      in if df_empty df then (st1, empty_DataFrame)
         else (st1, case alerte_filter of
                      None \<Rightarrow> df
                    | Some True \<Rightarrow> df\<lparr>rows := filter (\<lambda>r. Alerte_temps r) (rows df)\<rparr>
                    | Some False \<Rightarrow> df\<lparr>rows := filter (\<lambda>r. \<not> Alerte_temps r) (rows df)\<rparr>))"

section \<open>Retrieval of the historical orders, and the merge\<close>

definition get_histo_of_data ::
  "query_layer \<Rightarrow> analyzer \<Rightarrow>
   date option \<Rightarrow> date option \<Rightarrow> string option \<Rightarrow> string option \<Rightarrow> analyzer \<times> dataframe" where
  "get_histo_of_data env st date_debut date_fin famille_filter client_filter =
     execute_query env st (histo_query date_debut date_fin famille_filter client_filter)"

definition get_histo_of_data_with_lance_le_filter ::
  "query_layer \<Rightarrow> analyzer \<Rightarrow>
   date option \<Rightarrow> date option \<Rightarrow> string option \<Rightarrow> string option \<Rightarrow> analyzer \<times> dataframe" where
  "get_histo_of_data_with_lance_le_filter env st date_debut date_fin famille_filter
     client_filter =
     execute_query env st
       (histo_lance_le_query date_debut date_fin famille_filter client_filter)"

text \<open>\<^verbatim>\<open>pd.concat([a, h], ignore_index=True)\<close>: the rows of \<open>a\<close>, then the rows of \<open>h\<close>.\<close>

definition pd_concat :: "dataframe \<Rightarrow> dataframe \<Rightarrow> dataframe" where
  "pd_concat a h =
     \<lparr>columns = columns a @ filter (\<lambda>c. c \<notin> set (columns a)) (columns h),
      rows = rows a @ rows h\<rparr>"

definition get_combined_of_data ::
  "query_layer \<Rightarrow> analyzer \<Rightarrow>
   date option \<Rightarrow> date option \<Rightarrow> string option \<Rightarrow> string option \<Rightarrow> string option \<Rightarrow>
   bool option \<Rightarrow> bool \<Rightarrow> analyzer \<times> dataframe" where
  "get_combined_of_data env st date_debut date_fin statut_filter famille_filter client_filter
     alerte_filter include_historical =
     (let (st1, active_data) = get_of_data_with_lance_le_filter env st date_debut date_fin
            statut_filter famille_filter client_filter alerte_filter
      in if \<not> include_historical then (st1, active_data)
         else
           let (st2, historical_data) = get_histo_of_data_with_lance_le_filter env st1
                 date_debut date_fin famille_filter client_filter
           in (st2,
               if \<not> df_empty active_data \<and> \<not> df_empty historical_data
               then pd_concat active_data historical_data
               else if \<not> df_empty active_data then active_data
               else if \<not> df_empty historical_data then historical_data
               else empty_DataFrame))"

section \<open>Status distribution\<close>

text \<open>
  \<^verbatim>\<open>value_counts().to_dict()\<close>: the NULL statuses are dropped, and each other status of
  the column comes with the number of rows that have it, most frequent first, statuses of
  equal count in the order of their first rows. \<^verbatim>\<open>_get_status_distribution\<close> returns
  the empty dict for an empty frame or a frame without the column, and the three entries
  otherwise; the total is the number of rows, NULL statuses included.
\<close>

definition dropna :: "'a option list \<Rightarrow> 'a list" where
  "dropna col = concat (map (\<lambda>v. case v of Some x \<Rightarrow> [x] | None \<Rightarrow> []) col)"

definition first_seen :: "'a list \<Rightarrow> 'a list" where
  "first_seen xs = rev (remdups (rev xs))"

definition value_counts :: "string option list \<Rightarrow> (string \<times> nat) list" where
  "value_counts col =
     (let xs = dropna col
      in sort_key (\<lambda>p. - int (snd p)) (map (\<lambda>s. (s, count_list xs s)) (first_seen xs)))"

datatype status_distribution =
  Empty_dict
  | Distribution (counts: "(string \<times> nat) list") (percentages: "(string \<times> rat) list")
      (total: nat)

definition get_status_distribution :: "dataframe \<Rightarrow> status_distribution" where
  "get_status_distribution data =
     (if df_empty data \<or> ''STATUT'' \<notin> set (columns data) then Empty_dict
      else
        let status_counts = value_counts (map STATUT (rows data));
            total = length (rows data)
        in Distribution status_counts
             (map (\<lambda>(status, count). (status, of_nat count / of_nat total * 100)) status_counts)
             total)"

text \<open>The response of \<^verbatim>\<open>get_overview_dashboard\<close> for an empty frame.\<close>

record overview_response =
  kpis :: "(string \<times> rat) list"
  status_distribution :: status_distribution
  alerts :: "string list"
  total_records :: nat

definition empty_overview_response :: overview_response where
  "empty_overview_response =
     \<lparr>kpis = [], status_distribution = Empty_dict, alerts = [], total_records = 0\<rparr>"

section \<open>Concrete inputs\<close>

text \<open>
  An analyzer whose connection and engine are up and that has created no sample data; a
  query layer on which every read returns; one that is down; one active or historical
  order with status \<^verbatim>\<open>'C'\<close> and no client; and a source of sample draws.
\<close>

definition fresh :: analyzer where
  "fresh = \<lparr>engine = True, connection = True, sample_data_created = False\<rparr>"

definition online :: "tbl_row list \<Rightarrow> tbl_row list \<Rightarrow> query_layer" where
  "online ofda histo =
     \<lparr>tables = \<lparr>OF_DA = ofda, HISTO_OF_DA = histo\<rparr>, on_connect = Pyodbc_and_engine,
      engine_read = True, connection_read = True, retry_read = True\<rparr>"

definition offline :: query_layer where
  "offline =
     \<lparr>tables = \<lparr>OF_DA = [], HISTO_OF_DA = []\<rparr>, on_connect = Connect_fails,
      engine_read = False, connection_read = False, retry_read = False\<rparr>"

definition order_row ::
  "string \<Rightarrow> string \<Rightarrow> string option \<Rightarrow> date \<Rightarrow> date \<Rightarrow> date option \<Rightarrow>
   num \<Rightarrow> num \<Rightarrow> num \<Rightarrow> num \<Rightarrow> tbl_row" where
  "order_row numero produit categorie deadline launched cloture requested produced planned spent =
     \<lparr>t_NUMERO_OFDA = numero, t_PRODUIT = produit, t_STATUT = Some ''C'',
      t_LANCEMENT_AU_PLUS_TARD = Some deadline,
      t_QUANTITE_DEMANDEE = requested, t_CUMUL_ENTREES = produced,
      t_DUREE_PREVUE = planned, t_CUMUL_TEMPS_PASSES = spent,
      t_LANCE_LE = Some launched, t_DATE_CLOTURE = cloture,
      t_CATEGORIE = categorie, t_CLIENT = None\<rparr>"

definition some_draws :: sample_source where
  "some_draws =
     \<lparr>base_date = 0,
      draws = (\<lambda>i. \<lparr>days_offset = - int i, quantite_demandee = 100, cumul_entrees = 50,
                      duree_prevue = 10, cumul_temps_passes = 5, statut_pick = i,
                      famille_pick = i, client_pick = i, cloture_offset = None\<rparr>)\<rparr>"

section \<open>Notions used in the statements\<close>

text \<open>
  The frame that \<^verbatim>\<open>get_of_data\<close> holds before it adds the calculated columns: the
  result of the query, or the filtered sample rows when the query gave no row and the
  analyzer had created no sample data yet.
\<close>

definition of_data_frame ::
  "query_layer \<Rightarrow> sample_source \<Rightarrow> analyzer \<Rightarrow>
   date option \<Rightarrow> date option \<Rightarrow> string option \<Rightarrow> string option \<Rightarrow> string option \<Rightarrow> dataframe" where
  "of_data_frame env src st date_debut date_fin statut_filter famille_filter client_filter =
     (let df = snd (execute_query env st
                 (of_data_query date_debut date_fin statut_filter famille_filter client_filter))
      in if rows df = [] \<and> \<not> sample_data_created st
         then \<lparr>columns = base_columns,
               rows = sample_filters date_debut date_fin statut_filter famille_filter
                        client_filter (rows (create_sample_data src))\<rparr>
         else df)"

text \<open>A date column lies in the requested range; NULL lies in no range.\<close>

definition in_window :: "date \<Rightarrow> date \<Rightarrow> date option \<Rightarrow> bool" where
  "in_window d1 d2 col = (case col of Some x \<Rightarrow> d1 \<le> x \<and> x \<le> d2 | None \<Rightarrow> False)"

text \<open>The conditions of a query that are not about dates.\<close>

definition selected :: "string option \<Rightarrow> string option \<Rightarrow> string option \<Rightarrow> tbl_row \<Rightarrow> bool" where
  "selected statut_filter famille_filter client_filter a =
     (like_F (t_NUMERO_OFDA a)
      \<and> cond_eq_col statut_filter (t_STATUT a)
      \<and> cond_eq famille_filter (coalesce (t_CATEGORIE a) Non_definie)
      \<and> cond_eq client_filter (coalesce (t_CLIENT a) Non_defini))"

text \<open>
  A sample row passes the requested filters: the status, the family and the client are
  the requested ones where one is requested, and \<^verbatim>\<open>LANCEMENT_AU_PLUS_TARD\<close> is not
  before the start date and not after the end date where one is given.
\<close>

definition sample_selected ::
  "date option \<Rightarrow> date option \<Rightarrow> string option \<Rightarrow> string option \<Rightarrow> string option \<Rightarrow>
   of_row \<Rightarrow> bool" where
  "sample_selected date_debut date_fin statut_filter famille_filter client_filter r =
     ((if truthy_str statut_filter then STATUT r = statut_filter else True)
      \<and> cond_eq famille_filter (FAMILLE_TECHNIQUE r)
      \<and> cond_eq client_filter (CLIENT r)
      \<and> (case date_debut of None \<Rightarrow> True
          | Some d \<Rightarrow> (case LANCEMENT_AU_PLUS_TARD r of Some x \<Rightarrow> d \<le> x | None \<Rightarrow> False))
      \<and> (case date_fin of None \<Rightarrow> True
          | Some d \<Rightarrow> (case LANCEMENT_AU_PLUS_TARD r of Some x \<Rightarrow> x \<le> d | None \<Rightarrow> False)))"





section \<open>Basic facts\<close>

lemma set_order_by_desc: "set (order_by_desc k xs) = set xs"
  by (simp add: order_by_desc_def)

lemma sorted_order_by_desc: "sorted_wrt (\<ge>) (map k (order_by_desc k xs))"
  by (simp add: order_by_desc_def rev_map[symmetric] sorted_wrt_rev)

lemma execute_query_cases:
  "snd (execute_query env st q) = read_sql env q \<or> snd (execute_query env st q) = empty_DataFrame"
  by (auto simp: execute_query_def Let_def)

lemma execute_query_flag:
  "sample_data_created (fst (execute_query env st q)) = sample_data_created st"
  by (auto simp: execute_query_def connect_def Let_def split: connect_outcome.splits)

lemma df_empty_execute_query:
  "df_empty (snd (execute_query env st q)) \<longleftrightarrow> rows (snd (execute_query env st q)) = []"
  using execute_query_cases[of env st q]
  by (auto simp: df_empty_def read_sql_def empty_DataFrame_def sql_columns_def base_columns_def)

lemma execute_query_online:
  "execute_query (online a h) fresh q = (fresh, read_sql (online a h) q)"
  by (simp add: execute_query_def online_def fresh_def)

lemma execute_query_offline:
  "execute_query offline fresh q = (fresh\<lparr>engine := False, connection := False\<rparr>, empty_DataFrame)"
  by (simp add: execute_query_def offline_def fresh_def connect_def Let_def)

lemma online_simps:
  "tables (online a h) = \<lparr>OF_DA = a, HISTO_OF_DA = h\<rparr>"
  "sample_data_created fresh = False"
  "tables offline = \<lparr>OF_DA = [], HISTO_OF_DA = []\<rparr>"
  by (simp_all add: online_def fresh_def offline_def)

text \<open>The equations that evaluate a retrieval on concrete tables.\<close>

lemmas eval_defs =
  get_of_data_def get_of_data_with_lance_le_filter_def get_histo_of_data_def
  get_histo_of_data_with_lance_le_filter_def get_combined_of_data_def
  execute_query_online execute_query_offline read_sql_def online_simps
  of_data_query_def of_data_lance_le_query_def histo_query_def histo_lance_le_query_def
  left_join_def hist_avg_def hist_where_def hist_key_def join_on_def
  of_da_select_def histo_select_def order_by_desc_def order_row_def
  sql_gt_def sql_ge_def sql_le_def sql_eq_def sql_and_def sql_true_def sql_div_def
  sql_ratio_def sql_avg_def coalesce_def like_F_def cond_ge_def cond_le_def cond_eq_def
  sql_in_def cond_eq_col_def
  truthy_str_def df_empty_def empty_DataFrame_def sql_columns_def base_columns_def
  add_calculated_def add_progress_def add_source_def add_efficiency_def add_column_def
  py_ratio_def py_truthy_def py_ne0_def py_div_def py_gt_def pd_concat_def Let_def

subsection \<open>The shape of the result of \<^verbatim>\<open>get_of_data\<close>\<close>

lemma df_empty_of_data_frame:
  "df_empty (of_data_frame env src st dd dfin sf ff cf)
     \<longleftrightarrow> rows (of_data_frame env src st dd dfin sf ff cf) = []"
  using df_empty_execute_query[of env st "of_data_query dd dfin sf ff cf"]
  by (auto simp: of_data_frame_def Let_def df_empty_def base_columns_def)

lemma snd_get_of_data:
  "snd (get_of_data env src st dd dfin sf ff cf af) =
     (let df1 = of_data_frame env src st dd dfin sf ff cf
      in if rows df1 = [] then df1 else add_calculated af df1)"
proof -
  obtain st1 df where e: "execute_query env st (of_data_query dd dfin sf ff cf) = (st1, df)"
    by (cases "execute_query env st (of_data_query dd dfin sf ff cf)")
  have f: "sample_data_created st1 = sample_data_created st"
    using execute_query_flag[of env st "of_data_query dd dfin sf ff cf"] e by simp
  have d: "df_empty df \<longleftrightarrow> rows df = []"
    using df_empty_execute_query[of env st "of_data_query dd dfin sf ff cf"] e by simp
  have s: "create_sample_data src\<lparr>rows := x\<rparr> = \<lparr>columns = base_columns, rows = x\<rparr>" for x
    by (simp add: create_sample_data_def)
  have d': "columns df = [] \<longrightarrow> rows df = []"
    using d by (auto simp: df_empty_def)
  show ?thesis
    using d'
    by (auto simp: get_of_data_def e f s of_data_frame_def Let_def df_empty_def base_columns_def)
qed


lemma rows_add_calculated:
  "rows (add_calculated af df) =
     map add_efficiency
       ((if af = Some True then filter Alerte_temps else id)
          (map (\<lambda>r. add_source (add_column ''Alerte_temps'' (add_column ''Avancement_temps''
                                   (add_column ''Avancement_PROD'' (columns df))))
                                 (add_progress r)) (rows df)))"
  by (simp add: add_calculated_def Let_def comp_def)

lemma get_of_data_row:
  assumes "r \<in> set (rows (snd (get_of_data env src st dd dfin sf ff cf af)))"
  shows "\<exists>c x. x \<in> set (rows (of_data_frame env src st dd dfin sf ff cf))
           \<and> r = add_efficiency (add_source c (add_progress x))"
  using assms by (auto simp: snd_get_of_data Let_def rows_add_calculated split: if_splits)

text \<open>What \<^verbatim>\<open>get_of_data\<close> assigns, and the columns of the frames.\<close>

lemma get_of_data_alert_rule:
  assumes "r \<in> set (rows (snd (get_of_data env src st dd dfin sf ff cf af)))"
  shows "Alerte_temps r = py_gt (Avancement_temps r) (Avancement_PROD r)"
    and "Avancement_PROD r = py_ratio (CUMUL_ENTREES r) (QUANTITE_DEMANDEE r)"
    and "Avancement_temps r = py_ratio (CUMUL_TEMPS_PASSES r) (DUREE_PREVUE r)"
proof -
  from get_of_data_row[OF assms] obtain c x
    where r: "r = add_efficiency (add_source c (add_progress x))" by blast
  show "Alerte_temps r = py_gt (Avancement_temps r) (Avancement_PROD r)"
    and "Avancement_PROD r = py_ratio (CUMUL_ENTREES r) (QUANTITE_DEMANDEE r)"
    and "Avancement_temps r = py_ratio (CUMUL_TEMPS_PASSES r) (DUREE_PREVUE r)"
    by (simp_all add: r add_efficiency_def add_source_def add_progress_def Let_def)
qed

lemma py_ratio_number:
  "py_ratio (Some n) (Some d) = Some (if d = 0 then 0 else n / d)"
  "0 \<le> n \<Longrightarrow> 0 \<le> d \<Longrightarrow> \<exists>x. py_ratio (Some n) (Some d) = Some x \<and> 0 \<le> x"
  "py_ratio m None = None"
  by (simp_all add: py_ratio_def py_truthy_def py_ne0_def py_div_def split: option.splits)

lemma get_of_data_columns:
  "df_empty (snd (get_of_data env src st dd dfin sf ff cf af))
   \<or> ''STATUT'' \<in> set (columns (snd (get_of_data env src st dd dfin sf ff cf af)))"
proof -
  have f: "columns (of_data_frame env src st dd dfin sf ff cf) = []
           \<or> ''STATUT'' \<in> set (columns (of_data_frame env src st dd dfin sf ff cf))"
    using execute_query_cases[of env st "of_data_query dd dfin sf ff cf"]
    by (auto simp: of_data_frame_def Let_def read_sql_def empty_DataFrame_def sql_columns_def
        base_columns_def)
  have a: "''STATUT'' \<in> set cs \<Longrightarrow> ''STATUT'' \<in> set (add_column c cs)" for c cs
    by (simp add: add_column_def)
  show ?thesis
    using f df_empty_of_data_frame[of env src st dd dfin sf ff cf]
    by (auto simp: snd_get_of_data Let_def df_empty_def add_calculated_def a)
qed

lemma get_combined_of_data_columns:
  "df_empty (snd (get_combined_of_data env st dd dfin sf ff cf af ih))
   \<or> ''STATUT'' \<in> set (columns (snd (get_combined_of_data env st dd dfin sf ff cf af ih)))"
proof -
  have q: "df_empty (snd (execute_query e s q)) \<or> columns (snd (execute_query e s q)) = sql_columns"
    for e s q
    using execute_query_cases[of e s q] by (auto simp: read_sql_def empty_DataFrame_def df_empty_def)
  have s: "''STATUT'' \<in> set sql_columns"
    by (simp add: sql_columns_def base_columns_def)
  have l: "df_empty (snd (get_of_data_with_lance_le_filter env st dd dfin sf ff cf af))
           \<or> columns (snd (get_of_data_with_lance_le_filter env st dd dfin sf ff cf af)) = sql_columns"
    using q[of env st "of_data_lance_le_query dd dfin sf ff cf"]
    by (auto simp: get_of_data_with_lance_le_filter_def Let_def df_empty_def empty_DataFrame_def
        split: prod.splits option.splits bool.splits)
  have h: "df_empty (snd (get_histo_of_data_with_lance_le_filter env s dd dfin ff cf))
           \<or> columns (snd (get_histo_of_data_with_lance_le_filter env s dd dfin ff cf)) = sql_columns"
    for s
    using q[of env s "histo_lance_le_query dd dfin ff cf"]
    by (simp add: get_histo_of_data_with_lance_le_filter_def)
  show ?thesis
    using l h[of "fst (get_of_data_with_lance_le_filter env st dd dfin sf ff cf af)"] s
    by (auto simp: get_combined_of_data_def Let_def pd_concat_def df_empty_def empty_DataFrame_def
        split: prod.splits)
qed

subsection \<open>Order of the rows\<close>

lemma sorted_desc_filter:
  "sorted_wrt (\<ge>) (map k xs) \<Longrightarrow> sorted_wrt (\<ge>) (map k (filter P xs))"
  by (simp add: sorted_wrt_map sorted_wrt_filter)

lemma lance_le_sorted:
  "sorted_wrt (\<ge>) (map LANCEMENT_AU_PLUS_TARD
     (rows (snd (get_of_data_with_lance_le_filter env st dd dfin sf ff cf af))))"
proof -
  let ?q = "of_data_lance_le_query dd dfin sf ff cf"
  have q: "sorted_wrt (\<ge>) (map LANCEMENT_AU_PLUS_TARD (?q db))" for db
    by (simp add: of_data_lance_le_query_def sorted_order_by_desc)
  have e: "sorted_wrt (\<ge>) (map LANCEMENT_AU_PLUS_TARD (rows (snd (execute_query env st ?q))))"
    using execute_query_cases[of env st ?q] q[of "tables env"]
    by (auto simp: read_sql_def empty_DataFrame_def)
  show ?thesis
    using e
    by (auto simp: get_of_data_with_lance_le_filter_def empty_DataFrame_def sorted_desc_filter
        split: prod.splits option.splits bool.splits)
qed

lemma histo_lance_le_sorted:
  "sorted_wrt (\<ge>) (map LANCEMENT_AU_PLUS_TARD
     (rows (snd (get_histo_of_data_with_lance_le_filter env st dd dfin ff cf))))"
proof -
  let ?q = "histo_lance_le_query dd dfin ff cf"
  have q: "sorted_wrt (\<ge>) (map LANCEMENT_AU_PLUS_TARD (?q db))" for db
    by (simp add: histo_lance_le_query_def sorted_order_by_desc)
  show ?thesis
    using execute_query_cases[of env st ?q] q[of "tables env"]
    by (auto simp: get_histo_of_data_with_lance_le_filter_def read_sql_def empty_DataFrame_def)
qed

subsection \<open>The rows a date range selects\<close>

lemma left_join_fst: "fst ` set (left_join ofda histo) = set ofda"
proof -
  have one: "fst ` set (case filter (join_on a) G of [] \<Rightarrow> [(a, None)]
                         | gs \<Rightarrow> map (\<lambda>g. (a, snd g)) gs) = {a}"
    for a and G :: "((string \<times> string option) \<times> num) list"
    by (cases "filter (join_on a) G") (auto simp: image_iff)
  show ?thesis
    unfolding left_join_def by (simp add: image_UN one)
qed

lemma cond_window:
  "cond_ge (Some d1) col \<and> cond_le (Some d2) col \<longleftrightarrow> in_window d1 d2 col"
  by (cases col) (auto simp: cond_ge_def cond_le_def in_window_def sql_ge_def sql_le_def sql_true_def)

lemma cond_eq_None: "cond_eq None v"
  by (simp add: cond_eq_def truthy_str_def)

lemma cond_eq_col_None: "cond_eq_col None v"
  by (simp add: cond_eq_col_def truthy_str_def)

lemma NUMERO_of_da_select: "NUMERO_OFDA (of_da_select j) = t_NUMERO_OFDA (fst j)"
  by (simp add: of_da_select_def Let_def)

lemma NUMERO_histo_select: "NUMERO_OFDA (histo_select h) = t_NUMERO_OFDA h"
  by (simp add: histo_select_def)

lemma image_filter_fst:
  "f ` fst ` {j \<in> J. P (fst j)} = f ` {a \<in> fst ` J. P a}"
  by force

lemma NUMERO_image_select:
  "NUMERO_OFDA ` of_da_select ` S = t_NUMERO_OFDA ` fst ` S"
  by (simp add: image_image NUMERO_of_da_select)

lemma of_data_query_numbers:
  "NUMERO_OFDA ` set (of_data_query (Some d1) (Some d2) sf ff cf db)
     = t_NUMERO_OFDA ` {a \<in> set (OF_DA db).
          in_window d1 d2 (t_LANCEMENT_AU_PLUS_TARD a) \<and> selected sf ff cf a}"
proof -
  let ?J = "set (left_join (OF_DA db) (HISTO_OF_DA db))"
  let ?P = "\<lambda>a. in_window d1 d2 (t_LANCEMENT_AU_PLUS_TARD a) \<and> selected sf ff cf a"
  have "set (of_data_query (Some d1) (Some d2) sf ff cf db) = of_da_select ` {j \<in> ?J. ?P (fst j)}"
    by (auto simp: of_data_query_def set_order_by_desc Let_def selected_def cond_window[symmetric])
  then have "NUMERO_OFDA ` set (of_data_query (Some d1) (Some d2) sf ff cf db)
          = t_NUMERO_OFDA ` fst ` {j \<in> ?J. ?P (fst j)}"
    by (simp only: NUMERO_image_select)
  also have "\<dots> = t_NUMERO_OFDA ` {a \<in> fst ` ?J. ?P a}"
    by (rule image_filter_fst)
  finally show ?thesis by (simp add: left_join_fst)
qed

lemma of_data_lance_le_query_numbers:
  "NUMERO_OFDA ` set (of_data_lance_le_query (Some d1) (Some d2) sf ff cf db)
     = t_NUMERO_OFDA ` {a \<in> set (OF_DA db).
          in_window d1 d2 (t_LANCE_LE a) \<and> selected sf ff cf a}"
proof -
  let ?J = "set (left_join (OF_DA db) (HISTO_OF_DA db))"
  let ?P = "\<lambda>a. in_window d1 d2 (t_LANCE_LE a) \<and> selected sf ff cf a"
  have "set (of_data_lance_le_query (Some d1) (Some d2) sf ff cf db)
          = of_da_select ` {j \<in> ?J. ?P (fst j)}"
    by (auto simp: of_data_lance_le_query_def set_order_by_desc Let_def selected_def
        cond_window[symmetric])
  then have "NUMERO_OFDA ` set (of_data_lance_le_query (Some d1) (Some d2) sf ff cf db)
          = t_NUMERO_OFDA ` fst ` {j \<in> ?J. ?P (fst j)}"
    by (simp only: NUMERO_image_select)
  also have "\<dots> = t_NUMERO_OFDA ` {a \<in> fst ` ?J. ?P a}"
    by (rule image_filter_fst)
  finally show ?thesis by (simp add: left_join_fst)
qed

lemma histo_query_numbers:
  "NUMERO_OFDA ` set (histo_query (Some d1) (Some d2) ff cf db)
     = t_NUMERO_OFDA ` {h \<in> set (HISTO_OF_DA db).
          in_window d1 d2 (t_DATE_CLOTURE h) \<and> selected None ff cf h}"
proof -
  have "set (histo_query (Some d1) (Some d2) ff cf db)
          = histo_select ` {h \<in> set (HISTO_OF_DA db).
               in_window d1 d2 (t_DATE_CLOTURE h) \<and> selected None ff cf h}"
    by (auto simp: histo_query_def set_order_by_desc selected_def cond_eq_None
        cond_eq_col_None cond_window[symmetric])
  then show ?thesis
    by (simp add: image_image NUMERO_histo_select)
qed

lemma histo_lance_le_query_numbers:
  "NUMERO_OFDA ` set (histo_lance_le_query (Some d1) (Some d2) ff cf db)
     = t_NUMERO_OFDA ` {h \<in> set (HISTO_OF_DA db).
          in_window d1 d2 (t_LANCE_LE h) \<and> selected None ff cf h}"
proof -
  have "set (histo_lance_le_query (Some d1) (Some d2) ff cf db)
          = histo_select ` {h \<in> set (HISTO_OF_DA db).
               in_window d1 d2 (t_LANCE_LE h) \<and> selected None ff cf h}"
    by (auto simp: histo_lance_le_query_def set_order_by_desc selected_def cond_eq_None
        cond_eq_col_None cond_window[symmetric])
  then show ?thesis
    by (simp add: image_image NUMERO_histo_select)
qed

section \<open>The claims\<close>

subsection \<open>Alert and progress of an active order\<close>

text \<open>
  C1. The claim: each row returned by \<^verbatim>\<open>get_of_data\<close> has \<^verbatim>\<open>Alerte_temps\<close> true exactly
  when the planned duration is positive and the time spent exceeds it, so the order with
  100 requested, 50 produced, 10 hours planned and 10 hours spent has no alert. The query
  computes that, but \<^verbatim>\<open>get_of_data\<close> then overwrites the column with
  \<^verbatim>\<open>Avancement_temps > Avancement_PROD\<close>: for this order it returns progress 1/2, time
  progress 1, efficiency 1/2 and the alert set, while
  \<^verbatim>\<open>get_of_data_with_lance_le_filter\<close> returns the same order without alert.
\<close>

theorem scenario_A_time_alert:
  "map (\<lambda>r. (Avancement_PROD r, Avancement_temps r, Alerte_temps r, EFFICACITE r))
     (rows (snd (get_of_data
        (online [order_row ''F1'' ''P'' None 0 0 None (Some 100) (Some 50) (Some 10) (Some 10)] [])
        some_draws fresh None None None None None None)))
   = [(Some (1 / 2), Some 1, True, Some (1 / 2))]
   \<and> map (\<lambda>r. (Avancement_PROD r, Avancement_temps r, Alerte_temps r))
     (rows (snd (get_of_data_with_lance_le_filter
        (online [order_row ''F1'' ''P'' None 0 0 None (Some 100) (Some 50) (Some 10) (Some 10)] [])
        fresh None None None None None None)))
   = [(Some (1 / 2), Some 1, False)]"
  by (simp add: eval_defs)

text \<open>
  C8. The claim: the two progress ratios of every row are finite and not negative, 0 when
  the denominator is 0 or null. The Python guard \<^verbatim>\<open>den and den != 0\<close> lets NaN through,
  which is how a NULL of a numeric column that also holds numbers reaches the frame: of two
  active orders, the one whose requested quantity is NULL gets NaN as
  \<^verbatim>\<open>Avancement_PROD\<close> from \<^verbatim>\<open>get_of_data\<close>, and 0 from the query alone, as
  \<^verbatim>\<open>get_of_data_with_lance_le_filter\<close> returns it.
\<close>

theorem null_denominator_progress:
  "map (\<lambda>r. (NUMERO_OFDA r, Avancement_PROD r))
     (rows (snd (get_of_data
        (online [order_row ''F1'' ''P'' None 2 0 None (Some 100) (Some 50) (Some 10) (Some 10),
                 order_row ''F2'' ''P'' None 1 0 None None (Some 5) (Some 10) (Some 10)] [])
        some_draws fresh None None None None None None)))
   = [(''F1'', Some (1 / 2)), (''F2'', None)]
   \<and> map (\<lambda>r. (NUMERO_OFDA r, Avancement_PROD r))
     (rows (snd (get_of_data_with_lance_le_filter
        (online [order_row ''F1'' ''P'' None 2 0 None (Some 100) (Some 50) (Some 10) (Some 10),
                 order_row ''F2'' ''P'' None 1 0 None None (Some 5) (Some 10) (Some 10)] [])
        fresh None None None None None None)))
   = [(''F1'', Some (1 / 2)), (''F2'', Some 0)]"
  by (simp add: eval_defs)

text \<open>
  C4. For every row that \<^verbatim>\<open>get_of_data\<close> returns with a production progress that is
  not null, the efficiency is 1 when the time progress is 0, and production progress
  divided by time progress when the time progress is a number other than 0 (and NaN, as
  that quotient is, when the time progress is NaN).
\<close>

theorem efficiency_policy:
  "\<forall>r \<in> set (rows (snd (get_of_data env src st date_debut date_fin statut_filter famille_filter
                          client_filter alerte_filter))).
     Avancement_PROD r \<noteq> None \<longrightarrow>
       (Avancement_temps r = Some 0 \<longrightarrow> EFFICACITE r = Some 1)
       \<and> (\<forall>p t. Avancement_PROD r = Some p \<and> Avancement_temps r = Some t \<and> t \<noteq> 0
             \<longrightarrow> EFFICACITE r = Some (p / t))
       \<and> (Avancement_temps r = None \<longrightarrow> EFFICACITE r = None)"
proof
  fix r
  assume "r \<in> set (rows (snd (get_of_data env src st date_debut date_fin statut_filter
                                 famille_filter client_filter alerte_filter)))"
  then obtain x where "r = add_efficiency x"
    using get_of_data_row by blast
  then show "Avancement_PROD r \<noteq> None \<longrightarrow>
       (Avancement_temps r = Some 0 \<longrightarrow> EFFICACITE r = Some 1)
       \<and> (\<forall>p t. Avancement_PROD r = Some p \<and> Avancement_temps r = Some t \<and> t \<noteq> 0
             \<longrightarrow> EFFICACITE r = Some (p / t))
       \<and> (Avancement_temps r = None \<longrightarrow> EFFICACITE r = None)"
    by (auto simp: add_efficiency_def py_truthy_def py_ne0_def py_div_def)
qed

theorem efficiency_policy_witness:
  "map (\<lambda>r. (Avancement_PROD r, Avancement_temps r, EFFICACITE r))
     (rows (snd (get_of_data
        (online [order_row ''F1'' ''P'' None 2 0 None (Some 100) (Some 50) (Some 10) (Some 0),
                 order_row ''F2'' ''P'' None 1 0 None (Some 100) (Some 50) (Some 10) (Some 12)] [])
        some_draws fresh None None None None None None)))
   = [(Some (1 / 2), Some 0, Some 1), (Some (1 / 2), Some (6 / 5), Some (5 / 12))]"
  using efficiency_policy[of
      "online [order_row ''F1'' ''P'' None 2 0 None (Some 100) (Some 50) (Some 10) (Some 0),
               order_row ''F2'' ''P'' None 1 0 None (Some 100) (Some 50) (Some 10) (Some 12)] []"
      some_draws fresh None None None None None None]
  by (simp add: eval_defs)

text \<open>
  C10. With \<^verbatim>\<open>alerte_filter=False\<close>, \<^verbatim>\<open>get_of_data\<close> returns what it returns with no
  alert filter, and \<^verbatim>\<open>get_of_data_with_lance_le_filter\<close> returns the rows without
  alert of what it returns with no alert filter. On a table of one order that has spent
  more than planned and one that has not, the first returns both orders and the second
  only the order without alert.
\<close>

theorem alerte_filter_false:
  "snd (get_of_data env src st date_debut date_fin statut_filter famille_filter client_filter
          (Some False))
     = snd (get_of_data env src st date_debut date_fin statut_filter famille_filter
              client_filter None)
   \<and> rows (snd (get_of_data_with_lance_le_filter env st date_debut date_fin statut_filter
                  famille_filter client_filter (Some False)))
     = filter (\<lambda>r. \<not> Alerte_temps r)
         (rows (snd (get_of_data_with_lance_le_filter env st date_debut date_fin statut_filter
                       famille_filter client_filter None)))
   \<and> map (\<lambda>r. (NUMERO_OFDA r, Alerte_temps r))
       (rows (snd (get_of_data
          (online [order_row ''F1'' ''P'' None 2 0 None (Some 100) (Some 50) (Some 10) (Some 12),
                   order_row ''F2'' ''P'' None 1 0 None (Some 100) (Some 50) (Some 10) (Some 4)] [])
          some_draws fresh None None None None None (Some False))))
     = [(''F1'', True), (''F2'', False)]
   \<and> map (\<lambda>r. (NUMERO_OFDA r, Alerte_temps r))
       (rows (snd (get_of_data_with_lance_le_filter
          (online [order_row ''F1'' ''P'' None 2 0 None (Some 100) (Some 50) (Some 10) (Some 12),
                   order_row ''F2'' ''P'' None 1 0 None (Some 100) (Some 50) (Some 10) (Some 4)] [])
          fresh None None None None None (Some False))))
     = [(''F2'', False)]"
proof -
  have a: "snd (get_of_data env src st date_debut date_fin statut_filter famille_filter
                  client_filter (Some False))
     = snd (get_of_data env src st date_debut date_fin statut_filter famille_filter
              client_filter None)"
    by (simp add: snd_get_of_data add_calculated_def Let_def)
  have b: "rows (snd (get_of_data_with_lance_le_filter env st date_debut date_fin statut_filter
                  famille_filter client_filter (Some False)))
     = filter (\<lambda>r. \<not> Alerte_temps r)
         (rows (snd (get_of_data_with_lance_le_filter env st date_debut date_fin statut_filter
                       famille_filter client_filter None)))"
    by (auto simp: get_of_data_with_lance_le_filter_def Let_def empty_DataFrame_def
        split: prod.splits)
  have c: "map (\<lambda>r. (NUMERO_OFDA r, Alerte_temps r))
       (rows (snd (get_of_data
          (online [order_row ''F1'' ''P'' None 2 0 None (Some 100) (Some 50) (Some 10) (Some 12),
                   order_row ''F2'' ''P'' None 1 0 None (Some 100) (Some 50) (Some 10) (Some 4)] [])
          some_draws fresh None None None None None (Some False))))
     = [(''F1'', True), (''F2'', False)]"
    by (simp add: eval_defs)
  have d: "map (\<lambda>r. (NUMERO_OFDA r, Alerte_temps r))
       (rows (snd (get_of_data_with_lance_le_filter
          (online [order_row ''F1'' ''P'' None 2 0 None (Some 100) (Some 50) (Some 10) (Some 12),
                   order_row ''F2'' ''P'' None 1 0 None (Some 100) (Some 50) (Some 10) (Some 4)] [])
          fresh None None None None None (Some False))))
     = [(''F2'', False)]"
    by (simp add: eval_defs)
  from a b c d show ?thesis by blast
qed

subsection \<open>Historical orders\<close>

text \<open>
  C6. Every row of \<^verbatim>\<open>get_histo_of_data\<close> and of
  \<^verbatim>\<open>get_histo_of_data_with_lance_le_filter\<close> has completion status \<^verbatim>\<open>'COMPLETED'\<close> and
  no time alert, whatever its time spent and planned duration.
\<close>

theorem historical_rows_completed:
  "(\<forall>r \<in> set (rows (snd (get_histo_of_data env st date_debut date_fin famille_filter client_filter))).
      COMPLETION_STATUS r = ''COMPLETED'' \<and> \<not> Alerte_temps r)
   \<and> (\<forall>r \<in> set (rows (snd (get_histo_of_data_with_lance_le_filter env st date_debut date_fin
                               famille_filter client_filter))).
      COMPLETION_STATUS r = ''COMPLETED'' \<and> \<not> Alerte_temps r)"
proof -
  have sel: "COMPLETION_STATUS (histo_select h) = ''COMPLETED'' \<and> \<not> Alerte_temps (histo_select h)"
    for h
    by (simp add: histo_select_def)
  have a: "\<forall>r \<in> set (histo_query date_debut date_fin famille_filter client_filter db).
      COMPLETION_STATUS r = ''COMPLETED'' \<and> \<not> Alerte_temps r" for db
    using sel by (auto simp: histo_query_def set_order_by_desc)
  have b: "\<forall>r \<in> set (histo_lance_le_query date_debut date_fin famille_filter client_filter db).
      COMPLETION_STATUS r = ''COMPLETED'' \<and> \<not> Alerte_temps r" for db
    using sel by (auto simp: histo_lance_le_query_def set_order_by_desc)
  show ?thesis
    using execute_query_cases[of env st "histo_query date_debut date_fin famille_filter client_filter"]
      execute_query_cases[of env st
        "histo_lance_le_query date_debut date_fin famille_filter client_filter"]
      a[of "tables env"] b[of "tables env"]
    by (auto simp: get_histo_of_data_def get_histo_of_data_with_lance_le_filter_def read_sql_def
        empty_DataFrame_def)
qed

theorem historical_rows_completed_witness:
  "map (\<lambda>r. (COMPLETION_STATUS r, Alerte_temps r, CUMUL_TEMPS_PASSES r, DUREE_PREVUE r))
     (rows (snd (get_histo_of_data
        (online [] [order_row ''F7'' ''P'' None 1 0 (Some 3) (Some 100) (Some 100) (Some 10) (Some 12)])
        fresh None None None None)))
   = [(''COMPLETED'', False, Some 12, Some 10)]
   \<and> map (\<lambda>r. (COMPLETION_STATUS r, Alerte_temps r, CUMUL_TEMPS_PASSES r, DUREE_PREVUE r))
     (rows (snd (get_histo_of_data_with_lance_le_filter
        (online [] [order_row ''F7'' ''P'' None 1 0 (Some 3) (Some 100) (Some 100) (Some 10) (Some 12)])
        fresh None None None None)))
   = [(''COMPLETED'', False, Some 12, Some 10)]"
  using historical_rows_completed[of
      "online [] [order_row ''F7'' ''P'' None 1 0 (Some 3) (Some 100) (Some 100) (Some 10) (Some 12)]"
      fresh None None None None]
  by (simp add: eval_defs)

subsection \<open>The two date policies and the merge\<close>

text \<open>
  C3. With a date range, the query of \<^verbatim>\<open>get_of_data\<close> selects the active orders whose
  \<^verbatim>\<open>LANCEMENT_AU_PLUS_TARD\<close> lies in the range and the query of \<^verbatim>\<open>get_histo_of_data\<close>
  the historical orders whose \<^verbatim>\<open>DATE_CLOTURE\<close> does, while the queries of the two
  retrievals of the combined view select by \<^verbatim>\<open>LANCE_LE\<close>. On tables in which these
  dates differ the two policies return different orders: for the range of days 10 to 20,
  F1 and F3 under the deadline policy, F2 and F4 under the launch policy.
\<close>

theorem date_policies_differ:
  "NUMERO_OFDA ` set (of_data_query (Some d1) (Some d2) statut_filter famille_filter
                         client_filter db)
     = t_NUMERO_OFDA ` {a \<in> set (OF_DA db). in_window d1 d2 (t_LANCEMENT_AU_PLUS_TARD a)
                           \<and> selected statut_filter famille_filter client_filter a}
   \<and> NUMERO_OFDA ` set (histo_query (Some d1) (Some d2) famille_filter client_filter db)
     = t_NUMERO_OFDA ` {h \<in> set (HISTO_OF_DA db). in_window d1 d2 (t_DATE_CLOTURE h)
                           \<and> selected None famille_filter client_filter h}
   \<and> NUMERO_OFDA ` set (of_data_lance_le_query (Some d1) (Some d2) statut_filter famille_filter
                           client_filter db)
     = t_NUMERO_OFDA ` {a \<in> set (OF_DA db). in_window d1 d2 (t_LANCE_LE a)
                           \<and> selected statut_filter famille_filter client_filter a}
   \<and> NUMERO_OFDA ` set (histo_lance_le_query (Some d1) (Some d2) famille_filter client_filter db)
     = t_NUMERO_OFDA ` {h \<in> set (HISTO_OF_DA db). in_window d1 d2 (t_LANCE_LE h)
                           \<and> selected None famille_filter client_filter h}
   \<and> map NUMERO_OFDA (rows (snd (get_of_data
        (online [order_row ''F1'' ''P'' None 15 5 None (Some 100) (Some 50) (Some 10) (Some 4),
                 order_row ''F2'' ''P'' None 25 15 None (Some 100) (Some 50) (Some 10) (Some 4)]
                [order_row ''F3'' ''P'' None 1 5 (Some 15) (Some 100) (Some 100) (Some 10) (Some 9),
                 order_row ''F4'' ''P'' None 2 12 (Some 30) (Some 100) (Some 100) (Some 10) (Some 9)])
        some_draws fresh (Some 10) (Some 20) None None None None))) = [''F1'']
   \<and> map NUMERO_OFDA (rows (snd (get_histo_of_data
        (online [order_row ''F1'' ''P'' None 15 5 None (Some 100) (Some 50) (Some 10) (Some 4),
                 order_row ''F2'' ''P'' None 25 15 None (Some 100) (Some 50) (Some 10) (Some 4)]
                [order_row ''F3'' ''P'' None 1 5 (Some 15) (Some 100) (Some 100) (Some 10) (Some 9),
                 order_row ''F4'' ''P'' None 2 12 (Some 30) (Some 100) (Some 100) (Some 10) (Some 9)])
        fresh (Some 10) (Some 20) None None))) = [''F3'']
   \<and> map NUMERO_OFDA (rows (snd (get_combined_of_data
        (online [order_row ''F1'' ''P'' None 15 5 None (Some 100) (Some 50) (Some 10) (Some 4),
                 order_row ''F2'' ''P'' None 25 15 None (Some 100) (Some 50) (Some 10) (Some 4)]
                [order_row ''F3'' ''P'' None 1 5 (Some 15) (Some 100) (Some 100) (Some 10) (Some 9),
                 order_row ''F4'' ''P'' None 2 12 (Some 30) (Some 100) (Some 100) (Some 10) (Some 9)])
        fresh (Some 10) (Some 20) None None None None True))) = [''F2'', ''F4'']"
proof -
  have e1: "map NUMERO_OFDA (rows (snd (get_of_data
        (online [order_row ''F1'' ''P'' None 15 5 None (Some 100) (Some 50) (Some 10) (Some 4),
                 order_row ''F2'' ''P'' None 25 15 None (Some 100) (Some 50) (Some 10) (Some 4)]
                [order_row ''F3'' ''P'' None 1 5 (Some 15) (Some 100) (Some 100) (Some 10) (Some 9),
                 order_row ''F4'' ''P'' None 2 12 (Some 30) (Some 100) (Some 100) (Some 10) (Some 9)])
        some_draws fresh (Some 10) (Some 20) None None None None))) = [''F1'']"
    by (simp add: eval_defs)
  have e2: "map NUMERO_OFDA (rows (snd (get_histo_of_data
        (online [order_row ''F1'' ''P'' None 15 5 None (Some 100) (Some 50) (Some 10) (Some 4),
                 order_row ''F2'' ''P'' None 25 15 None (Some 100) (Some 50) (Some 10) (Some 4)]
                [order_row ''F3'' ''P'' None 1 5 (Some 15) (Some 100) (Some 100) (Some 10) (Some 9),
                 order_row ''F4'' ''P'' None 2 12 (Some 30) (Some 100) (Some 100) (Some 10) (Some 9)])
        fresh (Some 10) (Some 20) None None))) = [''F3'']"
    by (simp add: eval_defs)
  have e3: "map NUMERO_OFDA (rows (snd (get_combined_of_data
        (online [order_row ''F1'' ''P'' None 15 5 None (Some 100) (Some 50) (Some 10) (Some 4),
                 order_row ''F2'' ''P'' None 25 15 None (Some 100) (Some 50) (Some 10) (Some 4)]
                [order_row ''F3'' ''P'' None 1 5 (Some 15) (Some 100) (Some 100) (Some 10) (Some 9),
                 order_row ''F4'' ''P'' None 2 12 (Some 30) (Some 100) (Some 100) (Some 10) (Some 9)])
        fresh (Some 10) (Some 20) None None None None True))) = [''F2'', ''F4'']"
    by (simp add: eval_defs)
  show ?thesis
    by (intro conjI of_data_query_numbers histo_query_numbers of_data_lance_le_query_numbers
        histo_lance_le_query_numbers e1 e2 e3)
qed

text \<open>
  C5, as amended. When the active and the historical retrieval of the combined view both
  return rows, \<^verbatim>\<open>get_combined_of_data\<close> returns the active rows followed by the
  historical rows, and each of the two parts is in descending order of
  \<^verbatim>\<open>LANCEMENT_AU_PLUS_TARD\<close>.
\<close>

theorem combined_segments_sorted:
  "(let active_data = snd (get_of_data_with_lance_le_filter env st date_debut date_fin
                             statut_filter famille_filter client_filter alerte_filter);
        st1 = fst (get_of_data_with_lance_le_filter env st date_debut date_fin
                     statut_filter famille_filter client_filter alerte_filter);
        historical_data = snd (get_histo_of_data_with_lance_le_filter env st1 date_debut
                                 date_fin famille_filter client_filter)
    in \<not> df_empty active_data \<and> \<not> df_empty historical_data \<longrightarrow>
         rows (snd (get_combined_of_data env st date_debut date_fin statut_filter
                      famille_filter client_filter alerte_filter True))
           = rows active_data @ rows historical_data
         \<and> sorted_wrt (\<ge>) (map LANCEMENT_AU_PLUS_TARD (rows active_data))
         \<and> sorted_wrt (\<ge>) (map LANCEMENT_AU_PLUS_TARD (rows historical_data)))"
  using lance_le_sorted[of env st date_debut date_fin statut_filter famille_filter
        client_filter alerte_filter]
    histo_lance_le_sorted[of env
        "fst (get_of_data_with_lance_le_filter env st date_debut date_fin
                     statut_filter famille_filter client_filter alerte_filter)"
        date_debut date_fin famille_filter client_filter]
  by (simp add: get_combined_of_data_def pd_concat_def Let_def split: prod.splits)

theorem combined_segments_sorted_witness:
  "map (\<lambda>r. (DATA_SOURCE r, LANCEMENT_AU_PLUS_TARD r))
     (rows (snd (get_combined_of_data
        (online [order_row ''F1'' ''P'' None 1 0 None (Some 100) (Some 50) (Some 10) (Some 4),
                 order_row ''F2'' ''P'' None 3 0 None (Some 100) (Some 50) (Some 10) (Some 4)]
                [order_row ''F3'' ''P'' None 2 0 (Some 9) (Some 100) (Some 100) (Some 10) (Some 9),
                 order_row ''F4'' ''P'' None 4 0 (Some 9) (Some 100) (Some 100) (Some 10) (Some 9)])
        fresh None None None None None None True)))
   = [(''ACTIVE'', Some 3), (''ACTIVE'', Some 1), (''HISTORICAL'', Some 4), (''HISTORICAL'', Some 2)]"
  using combined_segments_sorted[of
      "online [order_row ''F1'' ''P'' None 1 0 None (Some 100) (Some 50) (Some 10) (Some 4),
               order_row ''F2'' ''P'' None 3 0 None (Some 100) (Some 50) (Some 10) (Some 4)]
              [order_row ''F3'' ''P'' None 2 0 (Some 9) (Some 100) (Some 100) (Some 10) (Some 9),
               order_row ''F4'' ''P'' None 4 0 (Some 9) (Some 100) (Some 100) (Some 10) (Some 9)]"
      fresh None None None None None None]
  by (simp add: eval_defs)

theorem combined_not_sorted:
  "\<not> df_empty (snd (get_of_data_with_lance_le_filter
        (online [order_row ''F1'' ''P'' None 1 0 None (Some 100) (Some 50) (Some 10) (Some 4)]
                [order_row ''F3'' ''P'' None 2 0 (Some 9) (Some 100) (Some 100) (Some 10) (Some 9)])
        fresh None None None None None None))
   \<and> \<not> df_empty (snd (get_histo_of_data_with_lance_le_filter
        (online [order_row ''F1'' ''P'' None 1 0 None (Some 100) (Some 50) (Some 10) (Some 4)]
                [order_row ''F3'' ''P'' None 2 0 (Some 9) (Some 100) (Some 100) (Some 10) (Some 9)])
        fresh None None None None))
   \<and> \<not> sorted_wrt (\<ge>) (map LANCEMENT_AU_PLUS_TARD
       (rows (snd (get_combined_of_data
        (online [order_row ''F1'' ''P'' None 1 0 None (Some 100) (Some 50) (Some 10) (Some 4)]
                [order_row ''F3'' ''P'' None 2 0 (Some 9) (Some 100) (Some 100) (Some 10) (Some 9)])
        fresh None None None None None None True))))"
  by (simp add: eval_defs)

subsection \<open>The historical baseline\<close>














subsection \<open>Status distribution\<close>

lemma set_dropna: "set (dropna col) = {s. Some s \<in> set col}"
  by (induction col) (auto simp: dropna_def split: option.splits)

lemma length_dropna: "length (dropna col) = length (filter (\<lambda>v. v \<noteq> None) col)"
  by (induction col) (auto simp: dropna_def split: option.splits)

lemma count_list_dropna: "count_list (dropna col) s = length (filter (\<lambda>v. v = Some s) col)"
  by (induction col) (auto simp: dropna_def split: option.splits)

lemma first_seen_facts: "set (first_seen xs) = set xs" "distinct (first_seen xs)"
  by (simp_all add: first_seen_def)

lemma value_counts_set:
  "set (value_counts col) = (\<lambda>s. (s, count_list (dropna col) s)) ` set (dropna col)"
  by (simp add: value_counts_def Let_def first_seen_facts)

lemma value_counts_distinct: "distinct (value_counts col)"
  by (simp add: value_counts_def Let_def distinct_map inj_on_def first_seen_facts)

lemma value_counts_keys: "distinct (map fst (value_counts col))"
  unfolding distinct_map
  by (auto simp: value_counts_distinct value_counts_set inj_on_def)

lemma value_counts_sum: "sum_list (map snd (value_counts col)) = length (dropna col)"
proof -
  have "sum_list (map snd (value_counts col)) = sum snd (set (value_counts col))"
    by (rule sum_list_distinct_conv_sum_set) (rule value_counts_distinct)
  also have "\<dots> = sum (count_list (dropna col)) (set (dropna col))"
    unfolding value_counts_set by (subst sum.reindex) (auto simp: inj_on_def)
  also have "\<dots> = length (dropna col)"
    by (rule sum_count_set) auto
  finally show ?thesis .
qed

lemma percentages_sum:
  "sum_list (map snd (map (\<lambda>(status, count). (status, of_nat count / n * 100)) cs))
     = (of_nat (sum_list (map snd cs)) / n * 100 :: rat)"
  by (induction cs) (auto simp: add_divide_distrib distrib_right)

lemma map_of_percentages:
  "map_of (map (\<lambda>(status, count). (status, g count)) cs) s = map_option g (map_of cs s)"
  by (induction cs) auto

lemma filter_map_STATUT:
  "length (filter P (map STATUT rs)) = length (filter (\<lambda>r. P (STATUT r)) rs)"
  by (induction rs) auto

text \<open>
  C9, as amended. For a frame that has rows and the column \<^verbatim>\<open>STATUT\<close>, the status
  distribution has one entry per status of the frame that is not NULL, with the number of
  rows of that status and that number divided by the number of all rows, times 100; the
  total is the number of all rows. The percentages add up to 100 times the share of the
  rows whose status is not NULL, which is 100 when no row has a NULL status. For an empty
  frame the result is the empty dict, which is also the \<^verbatim>\<open>status_distribution\<close> of the
  empty overview response.
\<close>

theorem status_distribution_percentages:
  "(\<not> df_empty data \<and> ''STATUT'' \<in> set (columns data) \<longrightarrow>
      (\<exists>cs ps. get_status_distribution data = Distribution cs ps (length (rows data))
         \<and> set (map fst cs) = {s. Some s \<in> STATUT ` set (rows data)}
         \<and> distinct (map fst cs)
         \<and> map fst ps = map fst cs
         \<and> (\<forall>s. Some s \<in> STATUT ` set (rows data) \<longrightarrow>
              map_of cs s = Some (length (filter (\<lambda>r. STATUT r = Some s) (rows data)))
              \<and> map_of ps s =
                  Some (of_nat (length (filter (\<lambda>r. STATUT r = Some s) (rows data)))
                          / of_nat (length (rows data)) * 100))
         \<and> sum_list (map snd ps)
             = of_nat (length (filter (\<lambda>r. STATUT r \<noteq> None) (rows data)))
                 / of_nat (length (rows data)) * 100
         \<and> (None \<notin> STATUT ` set (rows data) \<longrightarrow> sum_list (map snd ps) = 100)))
   \<and> (df_empty data \<longrightarrow> get_status_distribution data = Empty_dict)
   \<and> status_distribution empty_overview_response = Empty_dict"
proof (intro conjI impI)
  assume a: "\<not> df_empty data \<and> ''STATUT'' \<in> set (columns data)"
  define col where "col = map STATUT (rows data)"
  define cs where "cs = value_counts col"
  define ps where "ps = map (\<lambda>(status, count).
      (status, (of_nat count :: rat) / of_nat (length (rows data)) * 100)) cs"
  have n: "rows data \<noteq> []"
    using a by (simp add: df_empty_def)
  have g: "get_status_distribution data = Distribution cs ps (length (rows data))"
    using a by (simp add: get_status_distribution_def Let_def cs_def ps_def col_def)
  have k: "set (map fst cs) = {s. Some s \<in> STATUT ` set (rows data)}"
    by (auto simp: cs_def value_counts_set set_dropna col_def image_iff)
  have d: "distinct (map fst cs)"
    by (simp add: cs_def value_counts_keys)
  have f: "map fst ps = map fst cs"
    by (simp add: ps_def case_prod_unfold comp_def)
  have c: "map_of cs s = Some (length (filter (\<lambda>r. STATUT r = Some s) (rows data)))"
    if "Some s \<in> STATUT ` set (rows data)" for s
  proof -
    have "(s, count_list (dropna col) s) \<in> set cs"
      using that by (auto simp: cs_def value_counts_set set_dropna col_def)
    then have "map_of cs s = Some (count_list (dropna col) s)"
      using d by simp
    then show ?thesis
      by (simp add: count_list_dropna col_def comp_def)
  qed
  have p: "map_of ps s = Some (of_nat (length (filter (\<lambda>r. STATUT r = Some s) (rows data)))
                          / of_nat (length (rows data)) * 100)"
    if "Some s \<in> STATUT ` set (rows data)" for s
    using c[OF that] unfolding ps_def by (simp add: map_of_percentages)
  have t: "sum_list (map snd ps)
             = of_nat (length (filter (\<lambda>r. STATUT r \<noteq> None) (rows data)))
                 / of_nat (length (rows data)) * 100"
    unfolding ps_def percentages_sum
    by (simp add: cs_def value_counts_sum length_dropna col_def comp_def)
  have u: "sum_list (map snd ps) = 100" if "None \<notin> STATUT ` set (rows data)"
  proof -
    have "filter (\<lambda>r. STATUT r \<noteq> None) (rows data) = rows data"
      using that by (intro filter_True) (metis image_eqI)
    then show ?thesis
      using n by (simp add: t)
  qed
  show "\<exists>cs ps. get_status_distribution data = Distribution cs ps (length (rows data))
         \<and> set (map fst cs) = {s. Some s \<in> STATUT ` set (rows data)}
         \<and> distinct (map fst cs)
         \<and> map fst ps = map fst cs
         \<and> (\<forall>s. Some s \<in> STATUT ` set (rows data) \<longrightarrow>
              map_of cs s = Some (length (filter (\<lambda>r. STATUT r = Some s) (rows data)))
              \<and> map_of ps s =
                  Some (of_nat (length (filter (\<lambda>r. STATUT r = Some s) (rows data)))
                          / of_nat (length (rows data)) * 100))
         \<and> sum_list (map snd ps)
             = of_nat (length (filter (\<lambda>r. STATUT r \<noteq> None) (rows data)))
                 / of_nat (length (rows data)) * 100
         \<and> (None \<notin> STATUT ` set (rows data) \<longrightarrow> sum_list (map snd ps) = 100)"
    using g k d f c p t u by blast
next
  assume "df_empty data"
  then show "get_status_distribution data = Empty_dict"
    by (simp add: get_status_distribution_def)
next
  show "status_distribution empty_overview_response = Empty_dict"
    by (simp add: empty_overview_response_def)
qed

theorem status_distribution_percentages_witness:
  "get_status_distribution (snd (get_histo_of_data
        (online [] [order_row ''F1'' ''P'' None 3 0 (Some 9) (Some 5) (Some 5) (Some 10) (Some 10),
                    (order_row ''F2'' ''P'' None 2 0 (Some 9) (Some 5) (Some 5) (Some 10) (Some 10))\<lparr>t_STATUT := Some ''T''\<rparr>,
                    order_row ''F3'' ''P'' None 1 0 (Some 9) (Some 5) (Some 5) (Some 10) (Some 10)])
        fresh None None None None))
     = Distribution [(''C'', 2), (''T'', 1)] [(''C'', 200 / 3), (''T'', 100 / 3)] 3
   \<and> get_status_distribution (snd (get_histo_of_data (online [] []) fresh None None None None))
     = Empty_dict"
  using status_distribution_percentages[of "snd (get_histo_of_data
        (online [] [order_row ''F1'' ''P'' None 3 0 (Some 9) (Some 5) (Some 5) (Some 10) (Some 10),
                    (order_row ''F2'' ''P'' None 2 0 (Some 9) (Some 5) (Some 5) (Some 10) (Some 10))\<lparr>t_STATUT := Some ''T''\<rparr>,
                    order_row ''F3'' ''P'' None 1 0 (Some 9) (Some 5) (Some 5) (Some 10) (Some 10)])
        fresh None None None None)"]
  by (simp add: eval_defs get_status_distribution_def value_counts_def dropna_def first_seen_def)

text \<open>
  C9, as stated, fails on a frame with a NULL status: of two active orders, one with
  status \<^verbatim>\<open>'C'\<close> and one with no status, the distribution counts \<^verbatim>\<open>'C'\<close> once, the
  total is 2, and the only percentage is 50.
\<close>

theorem status_percentages_null_status:
  "get_status_distribution (snd (get_of_data
        (online [order_row ''F1'' ''P'' None 2 0 None (Some 100) (Some 50) (Some 10) (Some 4),
                 (order_row ''F2'' ''P'' None 1 0 None (Some 100) (Some 50) (Some 10) (Some 4))\<lparr>t_STATUT := None\<rparr>]
                [])
        some_draws fresh None None None None None None))
     = Distribution [(''C'', 1)] [(''C'', 50)] 2
   \<and> sum_list (map snd (percentages (get_status_distribution (snd (get_of_data
        (online [order_row ''F1'' ''P'' None 2 0 None (Some 100) (Some 50) (Some 10) (Some 4),
                 (order_row ''F2'' ''P'' None 1 0 None (Some 100) (Some 50) (Some 10) (Some 4))\<lparr>t_STATUT := None\<rparr>]
                [])
        some_draws fresh None None None None None None))))) = 50"
  by (simp add: eval_defs get_status_distribution_def value_counts_def dropna_def first_seen_def)

subsection \<open>Where the rows of \<^verbatim>\<open>get_of_data\<close> come from\<close>



lemma sample_filters_selected:
  "sample_filters dd dfin sf ff cf rs = filter (sample_selected dd dfin sf ff cf) rs"
proof -
  have c: "(if truthy_str a then filter (\<lambda>r. Some (g r) = a) xs else xs)
             = filter (\<lambda>r. cond_eq a (g r)) xs" for a g and xs :: "of_row list"
    by (auto simp: cond_eq_def intro: filter_cong)
  have s: "(if truthy_str a then filter (\<lambda>r. STATUT r = a) xs else xs)
             = filter (\<lambda>r. if truthy_str a then STATUT r = a else True) xs"
    for a and xs :: "of_row list"
    by simp
  have d: "(case a of None \<Rightarrow> xs | Some d \<Rightarrow> filter (P d) xs)
             = filter (\<lambda>r. case a of None \<Rightarrow> True | Some d \<Rightarrow> P d r) xs"
    for a :: "date option" and P and xs :: "of_row list"
    by (cases a) simp_all
  show ?thesis
    unfolding sample_filters_def Let_def c s d filter_filter
    by (rule filter_cong) (auto simp: sample_selected_def)
qed

lemma set_sample_filters: "set (sample_filters dd dfin sf ff cf rs) \<subseteq> set rs"
  by (simp add: sample_filters_selected)











end
